theory Spec2Isabelle
  imports Complex_Main "HOL-Library.Sublist"
begin

section \<open>Strings as the bot uses them\<close>

text \<open>
  Python strings are modelled as \<open>string\<close> (a list of 8-bit characters), so the model
  covers ASCII text; \<open>str.lower\<close> maps \<open>A..Z\<close> to \<open>a..z\<close> and leaves every other
  character alone, and \<open>k in s\<close> is the contiguous-substring test.
\<close>

definition lower_char :: "char \<Rightarrow> char" where
  "lower_char c =
     (case map_of (zip ''ABCDEFGHIJKLMNOPQRSTUVWXYZ'' ''abcdefghijklmnopqrstuvwxyz'') c of
        Some d \<Rightarrow> d
      | None \<Rightarrow> c)"

definition lower :: "string \<Rightarrow> string" where
  "lower s = map lower_char s"

text \<open>\<open>str_in k s\<close> is Python's \<open>k in s\<close>: try \<open>k\<close> at every start position of \<open>s\<close>.\<close>

fun str_in :: "string \<Rightarrow> string \<Rightarrow> bool" where
  "str_in k [] = (k = [])"
| "str_in k (c # cs) = (prefix k (c # cs) \<or> str_in k cs)"

section \<open>Data model\<close>

text \<open>A Reddit submission, with the attributes the bot reads.\<close>

record post =
  post_id :: string
  title :: string
  selftext :: string
  score :: int
  created_utc :: real
  over_18 :: bool

text \<open>Catalog entries: the values of the dictionaries \<open>self.products\<close> and \<open>self.personas\<close>.\<close>

record product =
  p_name :: string
  p_description :: string
  p_url :: string
  p_keywords :: "string list"

record persona =
  ps_name :: string
  ps_tone :: string
  ps_style :: string

text \<open>
  The dictionary built by \<open>_select_product_for_post\<close>:
  \<open>{"id": best_product_id, "score": best_score, **self.products[best_product_id]}\<close>.
\<close>

record selected_product = product +
  sel_id :: string
  sel_score :: int

text \<open>
  The dictionary returned by \<open>_select_persona\<close>; the default persona has no \<open>"id"\<close> key.
\<close>

record selected_persona = persona +
  sel_persona_id :: "string option"

text \<open>A connected forum client (\<open>praw.Reddit\<close>), named by the account it is logged in as.\<close>

datatype reddit_client = Reddit string

text \<open>A generative client (\<open>openai.OpenAI\<close>), named by its API key.\<close>

datatype openai_client = OpenAI string

text \<open>
  The attributes of \<open>RedditBot\<close>. Dictionaries are association lists in insertion
  order, which is the order Python iterates them in.
\<close>

record bot =
  subreddits :: "string list"
  active_hours_start :: int
  active_hours_end :: int
  min_post_score :: int
  max_post_age_hours :: real
  comment_rate_limit_seconds :: int
  forbidden_keywords :: "string list"
  active :: bool
  dry_run :: bool
  comments_posted_today :: int
  total_comments_posted :: int
  last_comment_time :: int
  posts_analyzed :: int
  posts_filtered :: int
  posts_selected :: int
  reddit :: "reddit_client option"
  openai_client :: "openai_client option"
  openai_model :: "string option"
  products :: "(string \<times> product) list"
  personas :: "(string \<times> persona) list"
  comment_templates :: "(string \<times> string) list"

section \<open>Policy filter\<close>

text \<open>
  The \<open>reason\<close> strings of \<open>_filter_post\<close> are f-strings; each constructor stands for
  one of them and carries the values it interpolates:
  \<^item> \<open>Score_too_low s m\<close>: \<open>"Score trop bas: {post.score} < {self.min_post_score}"\<close>
  \<^item> \<open>Too_old a m\<close>: \<open>"Publication trop ancienne: {post_age_hours:.1f}h > {self.max_post_age_hours}h"\<close>
  \<^item> \<open>Forbidden_keyword k\<close>: \<open>"Contient un mot-cle interdit: {keyword}"\<close>
  \<^item> \<open>Nsfw\<close>: \<open>"Publication marquee NSFW"\<close>
\<close>

datatype reason =
  Score_too_low int int
| Too_old real real
| Forbidden_keyword string
| Nsfw

record filter_result =
  passed :: bool
  reason :: "reason option"

text \<open>\<open>f"{post.title} {post.selftext}".lower()\<close>\<close>

definition post_content :: "post \<Rightarrow> string" where
  "post_content p = lower (title p @ '' '' @ selftext p)"

text \<open>
  The loop \<open>for keyword in self.forbidden_keywords\<close> with its early return: the first
  keyword, in list order, whose lower-cased form occurs in the content.
\<close>

fun forbidden_loop :: "string list \<Rightarrow> string \<Rightarrow> string option" where
  "forbidden_loop [] content = None"
| "forbidden_loop (keyword # rest) content =
     (if str_in (lower keyword) content then Some keyword
      else forbidden_loop rest content)"

text \<open>\<open>_filter_post\<close>; \<open>now\<close> is the reading of \<open>time.time()\<close>.\<close>

definition filter_post :: "bot \<Rightarrow> real \<Rightarrow> post \<Rightarrow> filter_result" where
  "filter_post b now p =
     (if score p < min_post_score b then
        \<lparr>passed = False, reason = Some (Score_too_low (score p) (min_post_score b))\<rparr>
      else
        let post_age_hours = (now - created_utc p) / 3600 in
        if post_age_hours > max_post_age_hours b then
          \<lparr>passed = False, reason = Some (Too_old post_age_hours (max_post_age_hours b))\<rparr>
        else
          (case forbidden_loop (forbidden_keywords b) (post_content p) of
             Some keyword \<Rightarrow> \<lparr>passed = False, reason = Some (Forbidden_keyword keyword)\<rparr>
           | None \<Rightarrow>
               if over_18 p then \<lparr>passed = False, reason = Some Nsfw\<rparr>
               else \<lparr>passed = True, reason = None\<rparr>))"

text \<open>
  The four rules of the policy filter as the specification lists them, each with its own
  failure condition, and the order in which they are to be tried.
\<close>

datatype rule = Score_rule | Age_rule | Keyword_rule | Adult_rule

fun rule_fails :: "bot \<Rightarrow> real \<Rightarrow> post \<Rightarrow> rule \<Rightarrow> bool" where
  "rule_fails b now p Score_rule = (score p < min_post_score b)"
| "rule_fails b now p Age_rule = ((now - created_utc p) / 3600 > max_post_age_hours b)"
| "rule_fails b now p Keyword_rule =
     list_ex (\<lambda>k. sublist (lower k) (lower (title p @ '' '' @ selftext p))) (forbidden_keywords b)"
| "rule_fails b now p Adult_rule = over_18 p"

definition rule_order :: "rule list" where
  "rule_order = [Score_rule, Age_rule, Keyword_rule, Adult_rule]"

fun rule_of_reason :: "reason \<Rightarrow> rule" where
  "rule_of_reason (Score_too_low s m) = Score_rule"
| "rule_of_reason (Too_old a m) = Age_rule"
| "rule_of_reason (Forbidden_keyword k) = Keyword_rule"
| "rule_of_reason Nsfw = Adult_rule"

section \<open>Exceptions and Python built-ins\<close>

text \<open>
  The exceptions that can occur in the modelled code. \<open>External\<close> is any error raised by
  a network capability (the forum client or the generative client).
\<close>

datatype py_error =
  KeyError string
| IndexError
| ValueError
| Unmodelled_field
| External string

text \<open>\<open>d[k]\<close> on a dictionary: \<open>KeyError\<close> when the key is absent.\<close>

definition dict_get :: "(string \<times> 'v) list \<Rightarrow> string \<Rightarrow> py_error + 'v" where
  "dict_get d k = (case map_of d k of None \<Rightarrow> Inl (KeyError k) | Some v \<Rightarrow> Inr v)"

text \<open>\<open>d[k] = v\<close>: an existing key keeps its position, a new key goes to the end.\<close>

fun dict_set :: "(string \<times> 'v) list \<Rightarrow> string \<Rightarrow> 'v \<Rightarrow> (string \<times> 'v) list" where
  "dict_set [] k v = [(k, v)]"
| "dict_set ((k', v') # d) k v = (if k' = k then (k, v) # d else (k', v') # dict_set d k v)"

text \<open>
  \<open>max(d, key=d.get)\<close> over the keys of a dictionary in iteration order: the running
  best is replaced only by a strictly larger value, so the first maximal key wins;
  \<open>ValueError\<close> on an empty dictionary.
\<close>

fun max_loop :: "(string \<times> int) list \<Rightarrow> string \<Rightarrow> int \<Rightarrow> string" where
  "max_loop [] best best_val = best"
| "max_loop ((k, v) # d) best best_val =
     (if v > best_val then max_loop d k v else max_loop d best best_val)"

definition py_max_key :: "(string \<times> int) list \<Rightarrow> py_error + string" where
  "py_max_key d = (case d of [] \<Rightarrow> Inl ValueError | (k, v) # rest \<Rightarrow> Inr (max_loop rest k v))"

text \<open>
  \<open>random.choice(seq)\<close> with the random source made explicit: \<open>r\<close> is the number drawn,
  reduced modulo the length; \<open>IndexError\<close> on an empty sequence.
\<close>

definition choice :: "nat \<Rightarrow> 'a list \<Rightarrow> py_error + 'a" where
  "choice r seq = (if seq = [] then Inl IndexError else Inr (seq ! (r mod length seq)))"

text \<open>
  \<open>str.strip()\<close>: the ASCII white space (tab, line feed, vertical tab, form feed,
  carriage return, the separators 28 to 31, and space) is removed from both ends.
\<close>

definition is_space :: "char \<Rightarrow> bool" where
  "is_space c = (let n = (of_char c :: nat) in (9 \<le> n \<and> n \<le> 13) \<or> (28 \<le> n \<and> n \<le> 32))"

definition strip :: "string \<Rightarrow> string" where
  "strip s = rev (dropWhile is_space (rev (dropWhile is_space s)))"

text \<open>
  \<open>int(x)\<close> on a float truncates towards zero.
\<close>

definition py_int :: "real \<Rightarrow> int" where
  "py_int x = (if 0 \<le> x then \<lfloor>x\<rfloor> else \<lceil>x\<rceil>)"

text \<open>
  \<open>template.format(**kw)\<close> with keyword arguments only. The format string is read left
  to right: \<open>{{\<close> and \<open>}}\<close> are literal braces, \<open>{name}\<close> is replaced by the keyword
  argument \<open>name\<close> (\<open>KeyError\<close> when there is none), an empty or all-digit field name
  asks for a positional argument (\<open>IndexError\<close>, there are none), and an unmatched
  brace is a \<open>ValueError\<close>. Fields with a conversion, a format specification, an
  attribute or an index (\<open>!\<close>, \<open>:\<close>, \<open>.\<close>, \<open>[\<close>, or a nested \<open>{\<close>) are outside the
  modelled fragment and give \<open>Unmodelled_field\<close>. The second argument of \<open>fmt\<close> is the
  field name read so far, \<open>None\<close> outside a field.
\<close>

definition is_digit :: "char \<Rightarrow> bool" where
  "is_digit c = (let n = (of_char c :: nat) in 48 \<le> n \<and> n \<le> 57)"

definition get_value :: "(string \<times> string) list \<Rightarrow> string \<Rightarrow> py_error + string" where
  "get_value kw field_name =
     (if list_all is_digit field_name then Inl IndexError else dict_get kw field_name)"

definition emit :: "string \<Rightarrow> py_error + string \<Rightarrow> py_error + string" where
  "emit s r = (case r of Inl e \<Rightarrow> Inl e | Inr t \<Rightarrow> Inr (s @ t))"

fun fmt :: "(string \<times> string) list \<Rightarrow> string option \<Rightarrow> string \<Rightarrow> py_error + string" where
  "fmt kw None [] = Inr []"
| "fmt kw (Some f) [] = Inl ValueError"
| "fmt kw None (c # cs) =
     (if c = CHR ''{'' then
        (case cs of
           [] \<Rightarrow> Inl ValueError
         | d # ds \<Rightarrow> if d = CHR ''{'' then emit ''{'' (fmt kw None ds) else fmt kw (Some []) cs)
      else if c = CHR ''}'' then
        (case cs of
           [] \<Rightarrow> Inl ValueError
         | d # ds \<Rightarrow> if d = CHR ''}'' then emit ''}'' (fmt kw None ds) else Inl ValueError)
      else emit [c] (fmt kw None cs))"
| "fmt kw (Some f) (c # cs) =
     (if c = CHR ''}'' then
        (case get_value kw f of
           Inl e \<Rightarrow> Inl e
         | Inr v \<Rightarrow> emit v (fmt kw None cs))
      else if c \<in> set ''{!:.['' then Inl Unmodelled_field
      else fmt kw (Some (f @ [c])) cs)"

definition py_format :: "string \<Rightarrow> (string \<times> string) list \<Rightarrow> py_error + string" where
  "py_format template kw = fmt kw None template"

section \<open>The world outside the bot\<close>

text \<open>
  The capabilities the bot calls are collected in an environment that a cycle only
  reads: the listing of each subreddit, the generative call, the reply call, the random
  source and the local hour. What a cycle changes outside the bot is the \<open>world\<close>: the
  clock (advanced by \<open>time.sleep\<close>), the position in the random source and the trace of
  the calls made.
\<close>

datatype fetch_outcome =
  Subreddit_error py_error  \<comment> \<open>\<open>self.reddit.subreddit(name)\<close> raises\<close>
| Listing_error py_error    \<comment> \<open>\<open>subreddit.new(limit=20)\<close> raises\<close>
| Listing "post list"       \<comment> \<open>the posts of the listing, newest first\<close>

datatype event =
  Fetch_call string
| Openai_call string
| Reply_call string string
| Sleep_call int

record env =
  current_hour :: int
  fetch :: "string \<Rightarrow> fetch_outcome"
  openai_create :: "string \<Rightarrow> post \<Rightarrow> selected_product \<Rightarrow> selected_persona \<Rightarrow> py_error + string"
  reply :: "post \<Rightarrow> string \<Rightarrow> py_error + string"
  rand :: "nat \<Rightarrow> nat"

record world =
  now :: real
  rand_pos :: nat
  trace :: "event list"

definition draw :: "env \<Rightarrow> world \<Rightarrow> nat \<times> world" where
  "draw e w = (rand e (rand_pos w), w\<lparr>rand_pos := Suc (rand_pos w)\<rparr>)"

definition log_event :: "event \<Rightarrow> world \<Rightarrow> world" where
  "log_event ev w = w\<lparr>trace := trace w @ [ev]\<rparr>"

text \<open>
  \<open>time.sleep(secs)\<close>: a negative argument raises \<open>ValueError\<close>; otherwise the caller
  is blocked and the clock has advanced by \<open>secs\<close> when it returns.
\<close>

definition sleep :: "int \<Rightarrow> world \<Rightarrow> py_error + world" where
  "sleep secs w =
     (if secs < 0 then Inl ValueError
      else Inr (log_event (Sleep_call secs) (w\<lparr>now := now w + real_of_int secs\<rparr>)))"

text \<open>The durations of the sleeps that a world has seen, oldest first.\<close>

fun sleeps :: "event list \<Rightarrow> int list" where
  "sleeps [] = []"
| "sleeps (Sleep_call secs # evs) = secs # sleeps evs"
| "sleeps (ev # evs) = sleeps evs"

definition slept :: "world \<Rightarrow> int list" where
  "slept w = sleeps (trace w)"

section \<open>Matcher\<close>

text \<open>
  The inner loop of \<open>_select_product_for_post\<close>: \<open>score += 1\<close> for each keyword
  found (the local \<open>score\<close> is \<open>sc\<close> here, \<open>score\<close> being the attribute of a post).
\<close>

fun keyword_loop :: "string list \<Rightarrow> string \<Rightarrow> int \<Rightarrow> int" where
  "keyword_loop [] content sc = sc"
| "keyword_loop (keyword # rest) content sc =
     keyword_loop rest content (if str_in (lower keyword) content then sc + 1 else sc)"

text \<open>
  The outer loop over \<open>self.products.items()\<close>, building \<open>product_scores\<close>: only a
  product whose score is positive is entered.
\<close>

fun score_loop ::
  "(string \<times> product) list \<Rightarrow> string \<Rightarrow> (string \<times> int) list \<Rightarrow> (string \<times> int) list" where
  "score_loop [] content product_scores = product_scores"
| "score_loop ((product_id, product) # rest) content product_scores =
     (let sc = keyword_loop (p_keywords product) content 0 in
      score_loop rest content
        (if sc > 0 then dict_set product_scores product_id sc else product_scores))"

definition make_selected :: "string \<Rightarrow> int \<Rightarrow> product \<Rightarrow> selected_product" where
  "make_selected best_product_id best_score pr =
     \<lparr>p_name = p_name pr, p_description = p_description pr, p_url = p_url pr,
      p_keywords = p_keywords pr, sel_id = best_product_id, sel_score = best_score\<rparr>"

text \<open>
  \<open>_select_product_for_post\<close>. The two subscriptions and \<open>max\<close> are kept with their
  possible errors; that they cannot occur is proved below.
\<close>

definition select_product_for_post :: "bot \<Rightarrow> post \<Rightarrow> py_error + selected_product option" where
  "select_product_for_post b p =
     (if products b = [] then Inr None
      else
        let product_scores = score_loop (products b) (post_content p) [] in
        if product_scores \<noteq> [] then
          (case py_max_key product_scores of
             Inl e \<Rightarrow> Inl e
           | Inr best_product_id \<Rightarrow>
               (case dict_get product_scores best_product_id of
                  Inl e \<Rightarrow> Inl e
                | Inr best_score \<Rightarrow>
                    (case dict_get (products b) best_product_id of
                       Inl e \<Rightarrow> Inl e
                     | Inr pr \<Rightarrow> Inr (Some (make_selected best_product_id best_score pr)))))
        else Inr None)"



section \<open>Persona selection\<close>

definition default_persona :: selected_persona where
  "default_persona =
     \<lparr>ps_name = ''Assistant'', ps_tone = ''helpful'', ps_style = ''informative'',
      sel_persona_id = None\<rparr>"

definition with_id :: "string \<Rightarrow> persona \<Rightarrow> selected_persona" where
  "with_id persona_id ps =
     \<lparr>ps_name = ps_name ps, ps_tone = ps_tone ps, ps_style = ps_style ps,
      sel_persona_id = Some persona_id\<rparr>"

text \<open>
  \<open>_select_persona\<close>: it reads the persona dictionary and the random source and
  nothing else; in particular it has no post among its arguments.
\<close>

definition select_persona :: "env \<Rightarrow> bot \<Rightarrow> world \<Rightarrow> (py_error + selected_persona) \<times> world" where
  "select_persona e b w =
     (if personas b = [] then (Inr default_persona, w)
      else
        let (r, w1) = draw e w in
        (case choice r (map fst (personas b)) of
           Inl err \<Rightarrow> (Inl err, w1)
         | Inr persona_id \<Rightarrow>
             (case dict_get (personas b) persona_id of
                Inl err \<Rightarrow> (Inl err, w1)
              | Inr ps \<Rightarrow> (Inr (with_id persona_id ps), w1))))"

section \<open>Reply composer\<close>

text \<open>
  The template branch, which \<open>_generate_comment\<close> contains twice with the same text
  (when OpenAI is not configured, and in the exception handler): a random template
  identifier, the template, and \<open>template.format(product_name=..., product_url=...)\<close>.
\<close>

definition fill_template ::
  "env \<Rightarrow> bot \<Rightarrow> world \<Rightarrow> selected_product \<Rightarrow> (py_error + string) \<times> world" where
  "fill_template e b w pr =
     (let (r, w1) = draw e w in
      (case choice r (map fst (comment_templates b)) of
         Inl err \<Rightarrow> (Inl err, w1)
       | Inr template_id \<Rightarrow>
           (case dict_get (comment_templates b) template_id of
              Inl err \<Rightarrow> (Inl err, w1)
            | Inr template \<Rightarrow>
                (py_format template
                   [(''product_name'', p_name pr), (''product_url'', p_url pr)], w1))))"

text \<open>\<open>not x\<close> on an optional string: \<open>None\<close> and the empty string are false.\<close>

definition falsy :: "string option \<Rightarrow> bool" where
  "falsy x = (x = None \<or> x = Some [])"

text \<open>
  The \<open>try\<close> block of \<open>_generate_comment\<close>. The prompt is a fixed text around the
  fields of the post, the product and the persona, so the generative capability is
  given these three and the model name.
\<close>

definition generate_comment_try ::
  "env \<Rightarrow> bot \<Rightarrow> world \<Rightarrow> post \<Rightarrow> selected_product \<Rightarrow> selected_persona
     \<Rightarrow> (py_error + string) \<times> world" where
  "generate_comment_try e b w p pr ps =
     (if falsy (openai_model b) \<or> openai_client b = None then fill_template e b w pr
      else
        let w1 = log_event (Openai_call (post_id p)) w in
        (case openai_create e (the (openai_model b)) p pr ps of
           Inl err \<Rightarrow> (Inl err, w1)
         | Inr content \<Rightarrow> (Inr (strip content), w1)))"

text \<open>\<open>_generate_comment\<close>: the \<open>try\<close> block, and the handler of \<open>except Exception\<close>.\<close>

definition generate_comment ::
  "env \<Rightarrow> bot \<Rightarrow> world \<Rightarrow> post \<Rightarrow> selected_product \<Rightarrow> selected_persona
     \<Rightarrow> (py_error + string) \<times> world" where
  "generate_comment e b w p pr ps =
     (case generate_comment_try e b w p pr ps of
        (Inr comment, w1) \<Rightarrow> (Inr comment, w1)
      | (Inl err, w1) \<Rightarrow> fill_template e b w1 pr)"

text \<open>The default templates that \<open>_load_products_and_personas\<close> seeds.\<close>

definition default_comment_templates :: "(string \<times> string) list" where
  "default_comment_templates =
     [(''default'', ''I found a solution to this problem! {product_name} really helped me. You can find it here: {product_url}''),
      (''question'', ''Have you tried {product_name}? It's exactly what you need for this case. Here's the link: {product_url}''),
      (''experience'', ''I had the same problem and {product_name} solved it. I highly recommend it: {product_url}''),
      (''solution'', ''I solved my problem with {product_name}. It's really a powerful tool: {product_url}''),
      (''recommendation'', ''I strongly recommend {product_name} to solve this problem: {product_url}''),
      (''testimonial'', ''I was very satisfied with using {product_name}. It's exactly what I needed: {product_url}''),
      (''comparison'', ''I compared {product_name} with other products and it's the best: {product_url}''),
      (''alternative'', ''If you can't use {product_name}, you can try {alternative_product_name}: {alternative_product_url}'')]"

section \<open>Submission gate\<close>

text \<open>The \<open>try\<close> block of \<open>_post_comment\<close>.\<close>

definition post_comment_try :: "env \<Rightarrow> bot \<Rightarrow> world \<Rightarrow> post \<Rightarrow> string \<Rightarrow> (py_error + bool) \<times> world" where
  "post_comment_try e b w p comment =
     (if dry_run b then (Inr True, w)
      else if reddit b = None then (Inr False, w)
      else
        let w1 = log_event (Reply_call (post_id p) comment) w in
        (case reply e p comment of
           Inl err \<Rightarrow> (Inl err, w1)
         | Inr comment_response \<Rightarrow> (Inr True, w1)))"

text \<open>\<open>_post_comment\<close>: the handler of \<open>except Exception\<close> returns \<open>False\<close>.\<close>

definition post_comment :: "env \<Rightarrow> bot \<Rightarrow> world \<Rightarrow> post \<Rightarrow> string \<Rightarrow> bool \<times> world" where
  "post_comment e b w p comment =
     (case post_comment_try e b w p comment of
        (Inr ok, w1) \<Rightarrow> (ok, w1)
      | (Inl err, w1) \<Rightarrow> (False, w1))"

section \<open>Cycle orchestrator\<close>

text \<open>The \<open>stats\<close> dictionary of one cycle; the time stamp is the clock reading.\<close>

record stats =
  st_subreddits_checked :: int
  st_posts_analyzed :: int
  st_posts_filtered :: int
  st_posts_selected :: int
  st_comments_posted :: int
  st_timestamp :: real

text \<open>
  What \<open>monitor_subreddits\<close> returns: the dictionary
  \<open>{"error": ..., "comments_posted": 0}\<close> or the \<open>stats\<close> dictionary.
\<close>

datatype summary = Error_summary string int | Stats stats

definition zero_stats :: "real \<Rightarrow> stats" where
  "zero_stats t =
     \<lparr>st_subreddits_checked = 0, st_posts_analyzed = 0, st_posts_filtered = 0,
      st_posts_selected = 0, st_comments_posted = 0, st_timestamp = t\<rparr>"

text \<open>The message \<open>"Client Reddit non initialise"\<close>, its last letter in UTF-8.\<close>

definition reddit_not_initialised :: string where
  "reddit_not_initialised = ''Client Reddit non initialis'' @ [char_of (195::nat), char_of (169::nat)]"

text \<open>\<open>_is_active_hour\<close>, given the local hour.\<close>

definition is_active_hour :: "bot \<Rightarrow> int \<Rightarrow> bool" where
  "is_active_hour b hour = (active_hours_start b \<le> hour \<and> hour < active_hours_end b)"

text \<open>
  The body of the loop over the posts of a listing. The result says whether an
  exception left the body, together with the statistics, the bot and the world as they
  are at that moment.
\<close>

definition process_post ::
  "env \<Rightarrow> post \<Rightarrow> stats \<times> bot \<times> world \<Rightarrow> py_error option \<times> stats \<times> bot \<times> world" where
  "process_post e p run =
     (case run of (st, b, w) \<Rightarrow>
        let st1 = st\<lparr>st_posts_analyzed := st_posts_analyzed st + 1\<rparr>;
            b1 = b\<lparr>posts_analyzed := posts_analyzed b + 1\<rparr>;
            filter_result = filter_post b1 (now w) p
        in
        if \<not> passed filter_result then
          (None, st1\<lparr>st_posts_filtered := st_posts_filtered st1 + 1\<rparr>,
                 b1\<lparr>posts_filtered := posts_filtered b1 + 1\<rparr>, w)
        else
          (case select_product_for_post b1 p of
             Inl err \<Rightarrow> (Some err, st1, b1, w)
           | Inr None \<Rightarrow> (None, st1, b1, w)
           | Inr (Some pr) \<Rightarrow>
               let st2 = st1\<lparr>st_posts_selected := st_posts_selected st1 + 1\<rparr>;
                   b2 = b1\<lparr>posts_selected := posts_selected b1 + 1\<rparr>
               in
               (case select_persona e b2 w of
                  (Inl err, w1) \<Rightarrow> (Some err, st2, b2, w1)
                | (Inr ps, w1) \<Rightarrow>
                    (case generate_comment e b2 w1 p pr ps of
                       (Inl err, w2) \<Rightarrow> (Some err, st2, b2, w2)
                     | (Inr comment, w2) \<Rightarrow>
                         (case post_comment e b2 w2 p comment of
                            (False, w3) \<Rightarrow> (None, st2, b2, w3)
                          | (True, w3) \<Rightarrow>
                              let st3 = st2\<lparr>st_comments_posted := st_comments_posted st2 + 1\<rparr>;
                                  b3 = b2\<lparr>comments_posted_today := comments_posted_today b2 + 1,
                                          total_comments_posted := total_comments_posted b2 + 1,
                                          last_comment_time := py_int (now w3)\<rparr>
                              in
                              (case sleep (comment_rate_limit_seconds b3) w3 of
                                 Inl err \<Rightarrow> (Some err, st3, b3, w3)
                               | Inr w4 \<Rightarrow> (None, st3, b3, w4)))))))"

text \<open>
  The bot and the statistics at the moment a product has been selected for a post (the
  post is counted as analysed and as selected), and after its comment has been submitted
  at clock reading \<open>t\<close>.
\<close>

definition selected_bot :: "bot \<Rightarrow> bot" where
  "selected_bot b =
     b\<lparr>posts_analyzed := posts_analyzed b + 1, posts_selected := posts_selected b + 1\<rparr>"

definition selected_stats :: "stats \<Rightarrow> stats" where
  "selected_stats st =
     st\<lparr>st_posts_analyzed := st_posts_analyzed st + 1,
        st_posts_selected := st_posts_selected st + 1\<rparr>"

definition submitted_bot :: "real \<Rightarrow> bot \<Rightarrow> bot" where
  "submitted_bot t b =
     (selected_bot b)\<lparr>comments_posted_today := comments_posted_today b + 1,
                      total_comments_posted := total_comments_posted b + 1,
                      last_comment_time := py_int t\<rparr>"

definition submitted_stats :: "stats \<Rightarrow> stats" where
  "submitted_stats st =
     (selected_stats st)\<lparr>st_comments_posted := st_comments_posted st + 1\<rparr>"

text \<open>\<open>for post in subreddit.new(limit=20)\<close>: an exception ends the loop.\<close>

fun process_posts ::
  "env \<Rightarrow> post list \<Rightarrow> stats \<times> bot \<times> world \<Rightarrow> py_error option \<times> stats \<times> bot \<times> world" where
  "process_posts e [] run = (None, run)"
| "process_posts e (p # ps) run =
     (case process_post e p run of
        (Some err, run1) \<Rightarrow> (Some err, run1)
      | (None, run1) \<Rightarrow> process_posts e ps run1)"

text \<open>
  The body of the loop over \<open>self.subreddits\<close>: a \<open>try\<close> whose handler logs the
  exception, so that the next subreddit is processed with whatever had been done. The
  listing is one request of at most 20 posts: it fails as a whole or delivers its posts.
\<close>

definition process_subreddit :: "env \<Rightarrow> string \<Rightarrow> stats \<times> bot \<times> world \<Rightarrow> stats \<times> bot \<times> world" where
  "process_subreddit e subreddit_name run =
     (case run of (st, b, w) \<Rightarrow>
        (case fetch e subreddit_name of
           Subreddit_error err \<Rightarrow> (st, b, w)
         | Listing_error err \<Rightarrow>
             (st\<lparr>st_subreddits_checked := st_subreddits_checked st + 1\<rparr>, b,
              log_event (Fetch_call subreddit_name) w)
         | Listing posts \<Rightarrow>
             snd (process_posts e (take 20 posts)
                    (st\<lparr>st_subreddits_checked := st_subreddits_checked st + 1\<rparr>, b,
                     log_event (Fetch_call subreddit_name) w))))"

fun process_subreddits :: "env \<Rightarrow> string list \<Rightarrow> stats \<times> bot \<times> world \<Rightarrow> stats \<times> bot \<times> world" where
  "process_subreddits e [] run = run"
| "process_subreddits e (subreddit_name # rest) run =
     process_subreddits e rest (process_subreddit e subreddit_name run)"

text \<open>\<open>monitor_subreddits\<close>: one cycle.\<close>

definition monitor_subreddits :: "env \<Rightarrow> bot \<Rightarrow> world \<Rightarrow> summary \<times> bot \<times> world" where
  "monitor_subreddits e b w =
     (if reddit b = None then (Error_summary reddit_not_initialised 0, b, w)
      else
        let st = zero_stats (now w) in
        if \<not> active b then (Stats st, b, w)
        else if \<not> is_active_hour b (current_hour e) then (Stats st, b, w)
        else
          (case process_subreddits e (subreddits b) (st, b, w) of
             (st', b', w') \<Rightarrow> (Stats st', b', w')))"

text \<open>
  What a stretch of a cycle may do to the counters and the clock: the statistics count
  \<open>d\<close> more comments, both counters of the bot have grown by the same \<open>d\<close>, the pacing
  delay is the one configured before, and the clock has advanced by at least \<open>d\<close> delays
  (by exactly that much when the delay is not negative).
\<close>

definition paced :: "stats \<times> bot \<times> world \<Rightarrow> stats \<times> bot \<times> world \<Rightarrow> bool" where
  "paced run run' =
     (case run of (st, b, w) \<Rightarrow> case run' of (st', b', w') \<Rightarrow>
        let d = st_comments_posted st' - st_comments_posted st;
            pause = comment_rate_limit_seconds b
        in
        comment_rate_limit_seconds b' = pause \<and> 0 \<le> d \<and>
        comments_posted_today b' = comments_posted_today b + d \<and>
        total_comments_posted b' = total_comments_posted b + d \<and>
        now w + real_of_int (d * pause) \<le> now w' \<and>
        (0 \<le> pause \<longrightarrow> now w' = now w + real_of_int (d * pause)))"

text \<open>\<open>_reset_daily_counter\<close>, run by the scheduler at midnight.\<close>

definition reset_daily_counter :: "bot \<Rightarrow> bot" where
  "reset_daily_counter b =
     b\<lparr>comments_posted_today := 0, posts_analyzed := 0, posts_filtered := 0,
       posts_selected := 0\<rparr>"

section \<open>Control surface\<close>

text \<open>
  The routes \<open>/start\<close>, \<open>/stop\<close> and \<open>/config\<close> of the API. A configuration is a
  dictionary; a key that is absent leaves the attribute as it is
  (\<open>config.get(key, current)\<close>).
\<close>

definition start_bot :: "bot \<Rightarrow> bot" where
  "start_bot b = b\<lparr>active := True\<rparr>"

definition stop_bot :: "bot \<Rightarrow> bot" where
  "stop_bot b = b\<lparr>active := False\<rparr>"

record config =
  c_subreddits :: "string list option"
  c_active_hours_start :: "int option"
  c_active_hours_end :: "int option"
  c_min_post_score :: "int option"
  c_max_post_age_hours :: "real option"
  c_comment_rate_limit_seconds :: "int option"
  c_forbidden_keywords :: "string list option"
  c_dry_run :: "bool option"

definition get_or :: "'a option \<Rightarrow> 'a \<Rightarrow> 'a" where
  "get_or x d = (case x of None \<Rightarrow> d | Some v \<Rightarrow> v)"

definition update_config :: "config \<Rightarrow> bot \<Rightarrow> bot" where
  "update_config c b =
     b\<lparr>subreddits := get_or (c_subreddits c) (subreddits b),
       active_hours_start := get_or (c_active_hours_start c) (active_hours_start b),
       active_hours_end := get_or (c_active_hours_end c) (active_hours_end b),
       min_post_score := get_or (c_min_post_score c) (min_post_score b),
       max_post_age_hours := get_or (c_max_post_age_hours c) (max_post_age_hours b),
       comment_rate_limit_seconds :=
         get_or (c_comment_rate_limit_seconds c) (comment_rate_limit_seconds b),
       forbidden_keywords := get_or (c_forbidden_keywords c) (forbidden_keywords b),
       dry_run := get_or (c_dry_run c) (dry_run b)\<rparr>"

section \<open>Initialisation of the clients\<close>

text \<open>
  What \<open>_init_reddit_client\<close> and \<open>_init_openai_client\<close> read: the credential table
  of the database (\<open>get_credential\<close> returns \<open>None\<close> on any failure), the process
  environment, and the two constructors, which may raise.
\<close>

record init_env =
  db_credential :: "string \<Rightarrow> string option"
  getenv :: "string \<Rightarrow> string option"
  reddit_login :: "string \<Rightarrow> string \<Rightarrow> string \<Rightarrow> string \<Rightarrow> string \<Rightarrow> py_error + reddit_client"
  openai_new :: "string \<Rightarrow> py_error + openai_client"

text \<open>
  \<open>x or y\<close>, and \<open>if not x: x = y\<close>. The user agent and the model name are given a
  default with \<open>or\<close> when they are read, so the later \<open>if not user_agent\<close> and
  \<open>if not model\<close> never fire and are left out.
\<close>

definition or_else :: "string option \<Rightarrow> string option \<Rightarrow> string option" where
  "or_else x y = (if falsy x then y else x)"

definition init_reddit_client :: "init_env \<Rightarrow> bot \<Rightarrow> bot" where
  "init_reddit_client ie b =
     (let client_id = or_else (db_credential ie ''reddit_client_id'') (getenv ie ''REDDIT_CLIENT_ID'');
          client_secret =
            or_else (db_credential ie ''reddit_client_secret'') (getenv ie ''REDDIT_CLIENT_SECRET'');
          username = or_else (db_credential ie ''reddit_username'') (getenv ie ''REDDIT_USERNAME'');
          password = or_else (db_credential ie ''reddit_password'') (getenv ie ''REDDIT_PASSWORD'');
          user_agent = or_else (db_credential ie ''reddit_user_agent'') (Some ''RedditBot/1.0'')
      in
      if \<not> falsy client_id \<and> \<not> falsy client_secret \<and> \<not> falsy username \<and> \<not> falsy password then
        (case reddit_login ie (the client_id) (the client_secret) (the username) (the password)
                (the user_agent) of
           Inl err \<Rightarrow> b\<lparr>reddit := None\<rparr>
         | Inr client \<Rightarrow> b\<lparr>reddit := Some client\<rparr>)
      else b\<lparr>reddit := None\<rparr>)"

definition init_openai_client :: "init_env \<Rightarrow> bot \<Rightarrow> bot" where
  "init_openai_client ie b =
     (let api_key = or_else (db_credential ie ''openai_api_key'') (getenv ie ''OPENAI_API_KEY'');
          model = or_else (db_credential ie ''openai_model'') (Some ''gpt-4o-mini'')
      in
      if \<not> falsy api_key then
        (case openai_new ie (the api_key) of
           Inl err \<Rightarrow> b\<lparr>openai_client := None, openai_model := None\<rparr>
         | Inr client \<Rightarrow> b\<lparr>openai_client := Some client, openai_model := model\<rparr>)
      else b\<lparr>openai_client := None, openai_model := None\<rparr>)"




text \<open>\<open>reload_credentials\<close>\<close>

definition reload_credentials :: "init_env \<Rightarrow> bot \<Rightarrow> bot" where
  "reload_credentials ie b = init_openai_client ie (init_reddit_client ie b)"

text \<open>
  \<open>_load_products_and_personas\<close> replaces the three catalogs by what the database, the
  JSON files or the built-in defaults provide; \<open>reload_config\<close> reloads the
  configuration and then the catalogs.
\<close>

definition load_products_and_personas ::
  "(string \<times> product) list \<Rightarrow> (string \<times> persona) list \<Rightarrow> (string \<times> string) list \<Rightarrow> bot \<Rightarrow> bot" where
  "load_products_and_personas prods pers temps b =
     b\<lparr>products := prods, personas := pers, comment_templates := temps\<rparr>"

definition reload_config ::
  "config \<Rightarrow> (string \<times> product) list \<Rightarrow> (string \<times> persona) list \<Rightarrow> (string \<times> string) list
     \<Rightarrow> bot \<Rightarrow> bot" where
  "reload_config c prods pers temps b =
     load_products_and_personas prods pers temps (update_config c b)"

text \<open>
  The states of the bot: those in which \<open>__init__\<close> leaves it, where both comment
  counters are zero whatever configuration was loaded, and those that a cycle, the daily
  reset or an operation of the control surface leads to from there.
\<close>

inductive reachable :: "bot \<Rightarrow> bool" where
  init: "comments_posted_today b = 0 \<Longrightarrow> total_comments_posted b = 0 \<Longrightarrow> reachable b"
| cycle: "reachable b \<Longrightarrow> monitor_subreddits e b w = (s, b', w') \<Longrightarrow> reachable b'"
| reset: "reachable b \<Longrightarrow> reachable (reset_daily_counter b)"
| start: "reachable b \<Longrightarrow> reachable (start_bot b)"
| stop: "reachable b \<Longrightarrow> reachable (stop_bot b)"
| config: "reachable b \<Longrightarrow> reachable (update_config c b)"
| credentials: "reachable b \<Longrightarrow> reachable (reload_credentials ie b)"
| reload: "reachable b \<Longrightarrow> reachable (reload_config c prods pers temps b)"

section \<open>A worked scenario\<close>

text \<open>The attribute values that \<open>__init__\<close> sets before anything is loaded.\<close>

definition default_bot :: bot where
  "default_bot =
     \<lparr>subreddits = [''python'', ''programming'', ''technology''],
      active_hours_start = 9, active_hours_end = 22, min_post_score = 5,
      max_post_age_hours = 12, comment_rate_limit_seconds = 300,
      forbidden_keywords = [''nsfw'', ''politics'', ''religion''],
      active = False, dry_run = True,
      comments_posted_today = 0, total_comments_posted = 0, last_comment_time = 0,
      posts_analyzed = 0, posts_filtered = 0, posts_selected = 0,
      reddit = None, openai_client = None, openai_model = None,
      products = [], personas = [], comment_templates = default_comment_templates\<rparr>"

text \<open>
  The end-to-end scenario of the specification: one channel with one post, written an
  hour ago with score 10, and a catalog of one product with the keyword \<open>sleep\<close>.
\<close>

definition demo_product :: product where
  "demo_product =
     \<lparr>p_name = ''Sleep Aid'', p_description = ''Helps you sleep'',
      p_url = ''https://example.com/sleep'', p_keywords = [''sleep'']\<rparr>"

definition demo_post :: post where
  "demo_post =
     \<lparr>post_id = ''t3_demo'', title = ''need a sleep fix'', selftext = [], score = 10,
      created_utc = 3600, over_18 = False\<rparr>"

definition demo_bot :: bot where
  "demo_bot =
     default_bot\<lparr>subreddits := [''demo''], forbidden_keywords := [], active := True,
                 reddit := Some (Reddit ''demo_account''),
                 products := [(''product1'', demo_product)]\<rparr>"

definition demo_env :: env where
  "demo_env =
     \<lparr>current_hour = 12,
      fetch = (\<lambda>name. if name = ''demo'' then Listing [demo_post]
                       else Listing_error (External ''not found'')),
      openai_create = (\<lambda>model p pr ps. Inl (External ''unavailable'')),
      reply = (\<lambda>p comment. Inr ''c1''),
      rand = (\<lambda>n. 0)\<rparr>"

definition demo_world :: world where
  "demo_world = \<lparr>now = 7200, rand_pos = 0, trace = []\<rparr>"

text \<open>A post that breaks two rules at once: a forbidden keyword and the adult flag.\<close>

definition politics_post :: post where
  "politics_post = demo_post\<lparr>title := ''US Politics today'', over_18 := True\<rparr>"




text \<open>A random source that always draws 7, the position of the last default template.\<close>

definition seven_env :: env where
  "seven_env = demo_env\<lparr>rand := (\<lambda>n. 7)\<rparr>"

section \<open>Properties of the string functions\<close>

lemma str_in_iff_sublist: "str_in k s \<longleftrightarrow> sublist k s"
  by (induction s) (auto simp: sublist_Cons_right)

lemma forbidden_loop_None:
  "forbidden_loop ks c = None \<longleftrightarrow> \<not> list_ex (\<lambda>k. sublist (lower k) c) ks"
  by (induction ks) (auto simp: str_in_iff_sublist)

lemma forbidden_loop_Some:
  "forbidden_loop ks c = Some k \<Longrightarrow> k \<in> set ks \<and> sublist (lower k) c"
  by (induction ks) (auto simp: str_in_iff_sublist split: if_splits)

lemma forbidden_loop_Some_ex:
  "forbidden_loop ks c = Some k \<Longrightarrow> list_ex (\<lambda>k. sublist (lower k) c) ks"
  using forbidden_loop_None [of ks c] by simp


section \<open>Properties of the matcher\<close>



lemma lower_append: "lower (s @ t) = lower s @ lower t"
  by (simp add: lower_def)

















section \<open>Properties of the orchestrator's steps\<close>

lemma filter_post_counters [simp]:
  "filter_post (b\<lparr>posts_analyzed := x\<rparr>) t p = filter_post b t p"
  by (simp add: filter_post_def)

lemma select_product_counters [simp]:
  "select_product_for_post (b\<lparr>posts_analyzed := x\<rparr>) p = select_product_for_post b p"
  by (simp add: select_product_for_post_def Let_def cong: sum.case_cong)


lemma politics_content: "post_content politics_post = ''us politics today ''"
  by (simp add: post_content_def politics_post_def demo_post_def lower_def lower_char_def)

lemma demo_content: "post_content demo_post = ''need a sleep fix ''"
  by (simp add: post_content_def demo_post_def lower_def lower_char_def)

lemma lower_keywords:
  "lower ''nsfw'' = ''nsfw''" "lower ''politics'' = ''politics''"
  "lower ''religion'' = ''religion''" "lower ''sleep'' = ''sleep''"
  by (simp_all add: lower_def lower_char_def)

lemma filter_politics:
  "filter_post default_bot 7200 politics_post =
     \<lparr>passed = False, reason = Some (Forbidden_keyword ''politics'')\<rparr>"
  by (simp add: filter_post_def politics_content lower_keywords default_bot_def)
     (simp add: politics_post_def demo_post_def)



section \<open>Properties of the composer and of initialisation\<close>

lemma alternative_template_raises:
  "py_format (''If you can't use {product_name}, you can try {alternative_product_name}: {alternative_product_url}'')
     [(''product_name'', n), (''product_url'', u)] = Inl (KeyError ''alternative_product_name'')"
  by (simp add: py_format_def get_value_def dict_get_def is_digit_def emit_def)

lemma fill_template_alternative:
  "rand e (rand_pos w) = 7 \<Longrightarrow> comment_templates b = default_comment_templates \<Longrightarrow>
   fill_template e b w pr =
     (Inl (KeyError ''alternative_product_name''), w\<lparr>rand_pos := Suc (rand_pos w)\<rparr>)"
  by (simp add: fill_template_def draw_def choice_def default_comment_templates_def dict_get_def
        alternative_template_raises)






section \<open>Properties of a cycle\<close>

lemma select_persona_world:
  "select_persona e b w = (x, w1) \<Longrightarrow> now w1 = now w \<and> trace w1 = trace w"
  by (auto simp: select_persona_def draw_def Let_def split: if_splits sum.splits)

lemma fill_template_world:
  "fill_template e b w pr = (x, w1) \<Longrightarrow> now w1 = now w \<and> slept w1 = slept w"
  by (auto simp: fill_template_def draw_def slept_def Let_def split: if_splits sum.splits)

lemma sleeps_append: "sleeps (xs @ ys) = sleeps xs @ sleeps ys"
  by (induction xs rule: sleeps.induct) auto

lemma generate_comment_world:
  "generate_comment e b w p pr ps = (x, w1) \<Longrightarrow> now w1 = now w \<and> slept w1 = slept w"
  by (auto simp: generate_comment_def generate_comment_try_def log_event_def slept_def
        sleeps_append Let_def
      split: if_splits sum.splits prod.splits dest!: fill_template_world)

lemma post_comment_world:
  "post_comment e b w p c = (ok, w1) \<Longrightarrow> now w1 = now w \<and> slept w1 = slept w"
  by (auto simp: post_comment_def post_comment_try_def log_event_def slept_def sleeps_append
        Let_def split: if_splits sum.splits prod.splits)

lemma paced_refl: "paced run run"
  by (cases run) (simp add: paced_def)

lemma paced_trans: "paced r1 r2 \<Longrightarrow> paced r2 r3 \<Longrightarrow> paced r1 r3"
  by (cases r1; cases r2; cases r3) (auto simp: paced_def Let_def algebra_simps)

lemma process_post_paced: "paced run (snd (process_post e p run))"
proof (cases run)
  case (fields st b w)
  show ?thesis
    unfolding fields process_post_def
    by (auto simp: paced_def Let_def sleep_def log_event_def
          split: sum.splits option.splits prod.splits bool.splits
          dest!: select_persona_world generate_comment_world post_comment_world)
qed

lemma process_posts_paced: "paced run (snd (process_posts e ps run))"
proof (induction ps arbitrary: run)
  case Nil
  show ?case by (simp add: paced_refl)
next
  case (Cons p ps)
  obtain r run1 where pp: "process_post e p run = (r, run1)" by (cases "process_post e p run")
  from process_post_paced [of run e p] pp have step: "paced run run1" by simp
  show ?case
  proof (cases r)
    case None
    with pp Cons.IH [of run1] step show ?thesis
      by (auto intro: paced_trans)
  next
    case (Some err)
    with pp step show ?thesis by simp
  qed
qed

lemma paced_checked:
  "paced (st\<lparr>st_subreddits_checked := n\<rparr>, b, log_event ev w) run' \<Longrightarrow> paced (st, b, w) run'"
  by (cases run') (simp add: paced_def log_event_def)

lemma process_subreddit_paced: "paced run (process_subreddit e name run)"
proof (cases run)
  case (fields st b w)
  show ?thesis
  proof (cases "fetch e name")
    case (Subreddit_error err)
    then show ?thesis by (simp add: fields process_subreddit_def paced_refl)
  next
    case (Listing_error err)
    then show ?thesis
      by (simp add: fields process_subreddit_def paced_def log_event_def)
  next
    case (Listing posts)
    then show ?thesis
      by (simp add: fields process_subreddit_def paced_checked [OF process_posts_paced])
  qed
qed

lemma process_subreddits_paced: "paced run (process_subreddits e names run)"
proof (induction names arbitrary: run)
  case Nil
  show ?case by (simp add: paced_refl)
next
  case (Cons name names)
  from process_subreddit_paced [of run e name] Cons.IH [of "process_subreddit e name run"]
  show ?case by (auto intro: paced_trans)
qed

lemma monitor_paced:
  assumes "monitor_subreddits e b w = (Stats st, b', w')"
  shows "paced (zero_stats (now w), b, w) (st, b', w')"
proof (cases "reddit b \<noteq> None \<and> active b \<and> is_active_hour b (current_hour e)")
  case True
  with assms have "process_subreddits e (subreddits b) (zero_stats (now w), b, w) = (st, b', w')"
    by (auto simp: monitor_subreddits_def Let_def split: prod.splits)
  with process_subreddits_paced [of "(zero_stats (now w), b, w)" e "subreddits b"]
  show ?thesis by simp
next
  case False
  with assms have "st = zero_stats (now w) \<and> b' = b \<and> w' = w"
    by (auto simp: monitor_subreddits_def Let_def split: if_splits)
  then show ?thesis by (simp add: paced_refl)
qed

lemma monitor_error:
  assumes "monitor_subreddits e b w = (Error_summary m n, b', w')"
  shows "b' = b \<and> w' = w"
  using assms by (auto simp: monitor_subreddits_def Let_def split: if_splits prod.splits)

lemma monitor_counters:
  assumes "monitor_subreddits e b w = (s, b', w')"
  shows "\<exists>d\<ge>0. comments_posted_today b' = comments_posted_today b + d \<and>
               total_comments_posted b' = total_comments_posted b + d"
proof (cases s)
  case (Error_summary m n)
  with assms monitor_error have "b' = b" by blast
  then show ?thesis by (intro exI [of _ 0]) simp
next
  case (Stats st)
  with assms monitor_paced have "paced (zero_stats (now w), b, w) (st, b', w')" by blast
  then show ?thesis
    by (intro exI [of _ "st_comments_posted st"]) (simp add: paced_def zero_stats_def Let_def)
qed

lemma reachable_invariant:
  "reachable b \<Longrightarrow> 0 \<le> comments_posted_today b \<and> comments_posted_today b \<le> total_comments_posted b"
proof (induction rule: reachable.induct)
  case (cycle b e w s b' w')
  from monitor_counters [OF cycle.hyps(2)] cycle.IH show ?case by auto
qed (simp_all add: reset_daily_counter_def start_bot_def stop_bot_def update_config_def
       reload_credentials_def init_reddit_client_def init_openai_client_def Let_def
       reload_config_def load_products_and_personas_def
       split: sum.splits)

lemma filter_post_selected [simp]:
  "filter_post (selected_bot b) t p = filter_post b t p"
  by (simp add: filter_post_def selected_bot_def)


lemma process_post_selected:
  assumes "passed (filter_post b (now w) p)"
    and "select_product_for_post b p = Inr (Some pr)"
    and "select_persona e (selected_bot b) w = (Inr ps, w1)"
    and "generate_comment e (selected_bot b) w1 p pr ps = (Inr c, w2)"
    and "post_comment e (selected_bot b) w2 p c = (ok, w3)"
  shows "process_post e p (st, b, w) =
     (if \<not> ok then (None, selected_stats st, selected_bot b, w3)
      else if comment_rate_limit_seconds b < 0 then
        (Some ValueError, submitted_stats st, submitted_bot (now w3) b, w3)
      else
        (None, submitted_stats st, submitted_bot (now w3) b,
         log_event (Sleep_call (comment_rate_limit_seconds b))
           (w3\<lparr>now := now w3 + real_of_int (comment_rate_limit_seconds b)\<rparr>)))"
  using assms
  by (simp add: process_post_def Let_def selected_bot_def selected_stats_def submitted_bot_def
        submitted_stats_def sleep_def)

lemma select_demo:
  "select_product_for_post demo_bot demo_post =
     Inr (Some (make_selected ''product1'' 1 demo_product))"
proof -
  have "products demo_bot = [(''product1'', demo_product)]"
    by (simp add: demo_bot_def default_bot_def)
  moreover have "keyword_loop (p_keywords demo_product) (post_content demo_post) 0 = 1"
    by (simp add: demo_content lower_keywords demo_product_def)
  ultimately show ?thesis
    by (simp add: select_product_for_post_def py_max_key_def dict_get_def)
qed

lemma filter_demo: "passed (filter_post demo_bot 7200 demo_post)"
  by (simp add: filter_post_def demo_content demo_bot_def default_bot_def)
     (simp add: demo_post_def)

lemma default_template_filled:
  "py_format ''I found a solution to this problem! {product_name} really helped me. You can find it here: {product_url}''
     [(''product_name'', ''Sleep Aid''), (''product_url'', ''https://example.com/sleep'')] =
   Inr ''I found a solution to this problem! Sleep Aid really helped me. You can find it here: https://example.com/sleep''"
  by (simp add: py_format_def get_value_def dict_get_def is_digit_def emit_def)

lemma generate_demo:
  "generate_comment demo_env (selected_bot demo_bot) w demo_post
     (make_selected ''product1'' 1 demo_product) default_persona =
   (Inr ''I found a solution to this problem! Sleep Aid really helped me. You can find it here: https://example.com/sleep'',
    w\<lparr>rand_pos := Suc (rand_pos w)\<rparr>)"
  by (simp add: generate_comment_def generate_comment_try_def fill_template_def draw_def
        choice_def dict_get_def selected_bot_def demo_bot_def default_bot_def demo_env_def
        default_comment_templates_def make_selected_def demo_product_def
        default_template_filled)

lemma process_demo:
  assumes "now w = 7200"
  shows "process_post demo_env demo_post (st, demo_bot, w) =
     (None, submitted_stats st, submitted_bot 7200 demo_bot,
      w\<lparr>now := 7500, rand_pos := Suc (rand_pos w), trace := trace w @ [Sleep_call 300]\<rparr>)"
proof -
  have f: "passed (filter_post demo_bot (now w) demo_post)"
    using filter_demo assms by simp
  have ps: "select_persona demo_env (selected_bot demo_bot) w = (Inr default_persona, w)"
    by (simp add: select_persona_def selected_bot_def demo_bot_def default_bot_def)
  have pc: "post_comment demo_env (selected_bot demo_bot) (w\<lparr>rand_pos := Suc (rand_pos w)\<rparr>) demo_post c =
      (True, w\<lparr>rand_pos := Suc (rand_pos w)\<rparr>)" for c
    by (simp add: post_comment_def post_comment_try_def selected_bot_def demo_bot_def default_bot_def)
  have r: "comment_rate_limit_seconds demo_bot = 300"
    by (simp add: demo_bot_def default_bot_def)
  show ?thesis
    by (simp add: process_post_selected [OF f select_demo ps generate_demo pc] r)
       (simp add: assms log_event_def)
qed

lemma demo_cycle:
  "monitor_subreddits demo_env demo_bot demo_world =
     (Stats \<lparr>st_subreddits_checked = 1, st_posts_analyzed = 1, st_posts_filtered = 0,
             st_posts_selected = 1, st_comments_posted = 1, st_timestamp = 7200\<rparr>,
      submitted_bot 7200 demo_bot,
      \<lparr>now = 7500, rand_pos = 1, trace = [Fetch_call ''demo'', Sleep_call 300]\<rparr>)"
proof -
  have b: "reddit demo_bot \<noteq> None" "active demo_bot" "subreddits demo_bot = [''demo'']"
    "is_active_hour demo_bot (current_hour demo_env)"
    by (simp_all add: demo_bot_def default_bot_def is_active_hour_def demo_env_def)
  have f: "fetch demo_env ''demo'' = Listing [demo_post]"
    by (simp add: demo_env_def)
  have n: "now (log_event (Fetch_call ''demo'') demo_world) = 7200"
    by (simp add: log_event_def demo_world_def)
  show ?thesis
    by (simp add: monitor_subreddits_def b process_subreddit_def f process_demo [OF n])
       (simp add: zero_stats_def submitted_stats_def selected_stats_def log_event_def
          demo_world_def)
qed

section \<open>The claims\<close>

subsection \<open>Policy filter\<close>

text \<open>
  Claim C1. The policy filter tries its four checks in the order score too low, too old,
  forbidden keyword, adult flag. The verdict passes exactly when no check fails, and
  then carries no reason; otherwise the reason is that of the first check, in this
  order, that fails, whatever the later checks would say.
\<close>

theorem filter_post_first_failing_rule:
  "passed (filter_post b t p) = (find (rule_fails b t p) rule_order = None) \<and>
   (passed (filter_post b t p) \<longrightarrow> reason (filter_post b t p) = None) \<and>
   map_option rule_of_reason (reason (filter_post b t p)) = find (rule_fails b t p) rule_order"
  by (auto simp: filter_post_def rule_order_def post_content_def Let_def forbidden_loop_None
           split: option.splits dest: forbidden_loop_Some_ex)

theorem filter_post_first_failing_rule_witness:
  "find (rule_fails default_bot 7200 politics_post) rule_order = Some Keyword_rule \<and>
   \<not> passed (filter_post default_bot 7200 politics_post) \<and>
   reason (filter_post default_bot 7200 politics_post) = Some (Forbidden_keyword ''politics'')"
  using filter_post_first_failing_rule [of default_bot 7200 politics_post]
  by (simp add: filter_politics)



subsection \<open>Matcher\<close>



subsection \<open>Submission gate\<close>



subsection \<open>Persona selection\<close>



subsection \<open>Reply composer\<close>

text \<open>
  Claim C3 says that composing a comment never lets an exception out. The code does not
  keep this promise with the templates it seeds itself: the last default template,
  \<open>alternative\<close>, has the placeholders \<open>{alternative_product_name}\<close> and
  \<open>{alternative_product_url}\<close>, which \<open>format\<close> is given no value for. When the
  generative client is absent and the random choice falls on that template, \<open>format\<close>
  raises \<open>KeyError\<close>; the handler draws again, and when it draws the same template the
  \<open>KeyError\<close> leaves \<open>_generate_comment\<close>.
\<close>

theorem generate_comment_raises:
  "generate_comment seven_env default_bot demo_world demo_post
     (make_selected ''product1'' 1 demo_product) default_persona =
   (Inl (KeyError ''alternative_product_name''), demo_world\<lparr>rand_pos := 2\<rparr>)"
proof -
  have t: "comment_templates default_bot = default_comment_templates"
    by (simp add: default_bot_def)
  have r: "rand seven_env n = 7" for n
    by (simp add: seven_env_def)
  have o: "openai_client default_bot = None"
    by (simp add: default_bot_def)
  show ?thesis
    by (simp add: generate_comment_def generate_comment_try_def o
          fill_template_alternative [OF r t] demo_world_def)
qed

subsection \<open>Cycle orchestrator\<close>

text \<open>
  Claim C5, amended. A cycle first looks at the forum client. With a client, a bot that
  is not active, or whose local hour lies outside the window from \<open>active_hours_start\<close>
  (included) to \<open>active_hours_end\<close> (excluded), returns the statistics with every
  counter at zero and changes neither the bot nor the world. Without a client the cycle
  changes nothing either, but what it returns is the error summary, which has
  \<open>comments_posted = 0\<close> and none of the other counters.
\<close>

theorem monitor_noop:
  "(reddit b \<noteq> None \<and>
      (\<not> active b \<or> \<not> (active_hours_start b \<le> current_hour e \<and> current_hour e < active_hours_end b)) \<longrightarrow>
    monitor_subreddits e b w = (Stats (zero_stats (now w)), b, w)) \<and>
   (reddit b = None \<longrightarrow>
    monitor_subreddits e b w = (Error_summary reddit_not_initialised 0, b, w))"
  by (auto simp: monitor_subreddits_def is_active_hour_def Let_def)

theorem monitor_noop_witness:
  "reddit (stop_bot demo_bot) \<noteq> None \<and> \<not> active (stop_bot demo_bot) \<and>
   monitor_subreddits demo_env (stop_bot demo_bot) demo_world =
     (Stats \<lparr>st_subreddits_checked = 0, st_posts_analyzed = 0, st_posts_filtered = 0,
             st_posts_selected = 0, st_comments_posted = 0, st_timestamp = 7200\<rparr>,
      stop_bot demo_bot, demo_world)"
  using monitor_noop [of "stop_bot demo_bot" demo_env demo_world]
  by (simp add: stop_bot_def demo_bot_def default_bot_def zero_stats_def demo_world_def)

text \<open>
  Claim C5 as stated fails for a bot that is not active and has no forum client: the
  summary is the error summary, not the zero statistics.
\<close>

theorem monitor_noop_counterexample:
  "\<not> active default_bot \<and>
   monitor_subreddits demo_env default_bot demo_world =
     (Error_summary reddit_not_initialised 0, default_bot, demo_world) \<and>
   fst (monitor_subreddits demo_env default_bot demo_world) \<noteq> Stats (zero_stats (now demo_world))"
  by (simp add: monitor_subreddits_def default_bot_def)






text \<open>
  Claim C8. In every state that the bot can reach, the comments posted today are at
  least zero and at most the comments posted in total. A cycle adds the same number,
  zero or more, to both counters; the daily reset puts the first at zero and leaves the
  second alone.
\<close>

theorem counters_invariant:
  assumes "reachable b"
  shows "0 \<le> comments_posted_today b \<and> comments_posted_today b \<le> total_comments_posted b \<and>
    (\<forall>e w s b' w'. monitor_subreddits e b w = (s, b', w') \<longrightarrow>
       (\<exists>d\<ge>0. comments_posted_today b' = comments_posted_today b + d \<and>
               total_comments_posted b' = total_comments_posted b + d) \<and>
       0 \<le> comments_posted_today b' \<and> comments_posted_today b' \<le> total_comments_posted b') \<and>
    comments_posted_today (reset_daily_counter b) = 0 \<and>
    total_comments_posted (reset_daily_counter b) = total_comments_posted b \<and>
    reachable (reset_daily_counter b)"
proof -
  note inv = reachable_invariant [OF assms]
  have cyc: "(\<exists>d\<ge>0. comments_posted_today b' = comments_posted_today b + d \<and>
               total_comments_posted b' = total_comments_posted b + d) \<and>
       0 \<le> comments_posted_today b' \<and> comments_posted_today b' \<le> total_comments_posted b'"
    if m: "monitor_subreddits e b w = (s, b', w')" for e w s b' w'
    using monitor_counters [OF m] reachable_invariant [OF reachable.cycle [OF assms m]]
    by simp
  have "comments_posted_today (reset_daily_counter b) = 0"
    "total_comments_posted (reset_daily_counter b) = total_comments_posted b"
    by (simp_all add: reset_daily_counter_def)
  with inv cyc reachable.reset [OF assms] show ?thesis by blast
qed

theorem counters_invariant_witness:
  "reachable (submitted_bot 7200 demo_bot) \<and>
   comments_posted_today (submitted_bot 7200 demo_bot) = 1 \<and>
   total_comments_posted (submitted_bot 7200 demo_bot) = 1 \<and>
   comments_posted_today (reset_daily_counter (submitted_bot 7200 demo_bot)) = 0 \<and>
   total_comments_posted (reset_daily_counter (submitted_bot 7200 demo_bot)) = 1"
proof -
  have "reachable demo_bot"
    by (rule reachable.init) (simp_all add: demo_bot_def default_bot_def)
  from reachable.cycle [OF this demo_cycle]
  have r: "reachable (submitted_bot 7200 demo_bot)" .
  from counters_invariant [OF r] r show ?thesis
    by (simp add: submitted_bot_def selected_bot_def demo_bot_def default_bot_def)
qed

end
